theory Spec2Isabelle
  imports Complex_Main "HOL-Library.Multiset"
begin

section \<open>Rectangle algebra\<close>

text \<open>
  Go's \<open>float64\<close> is modelled by the reals: comparisons, \<open>math.Min\<close> and \<open>math.Max\<close> are
  exact on finite doubles, and the products and differences that feed the cached
  \<open>size\<close> field are taken without rounding. NaN and the infinities are outside the model.
\<close>

record RTreePoint =
  X :: real
  Y :: real

text \<open>The field \<open>size\<close> of the Go struct \<open>Rect\<close> is called \<open>rsize\<close> here.\<close>

record Rect =
  bottomLeft :: RTreePoint
  topRight :: RTreePoint
  rsize :: real

definition ToRect :: "RTreePoint \<Rightarrow> Rect" where
  "ToRect n =
     \<lparr>bottomLeft = \<lparr>X = X n - 0.00002, Y = Y n - 0.00002\<rparr>,
      topRight = \<lparr>X = X n + 0.00002, Y = Y n + 0.00002\<rparr>,
      rsize = 0.00002 * 0.00002\<rparr>"


definition NewRect :: "RTreePoint \<Rightarrow> RTreePoint \<Rightarrow> Rect" where
  "NewRect u v =
     (let bl = \<lparr>X = min (X u) (X v), Y = min (Y u) (Y v)\<rparr>;
          tr = \<lparr>X = max (X u) (X v), Y = max (Y u) (Y v)\<rparr>
      in \<lparr>bottomLeft = bl, topRight = tr,
          rsize = (Y tr - Y bl) * (X tr - X bl)\<rparr>)"

definition containsRect :: "Rect \<Rightarrow> Rect \<Rightarrow> bool" where
  "containsRect r1 r2 =
     (if Y (bottomLeft r1) > Y (bottomLeft r2) \<or> X (bottomLeft r1) > X (bottomLeft r2)
      then False
      else if Y (topRight r1) < Y (topRight r2) \<or> X (topRight r1) < X (topRight r1)
      then False
      else True)"

definition enlarge :: "Rect \<Rightarrow> Rect \<Rightarrow> Rect" where
  "enlarge r1 r2 =
     (let a = (if X (bottomLeft r1) > X (bottomLeft r2)
               then r1\<lparr>bottomLeft := (bottomLeft r1)\<lparr>X := X (bottomLeft r2)\<rparr>\<rparr> else r1);
          b = (if X (topRight a) < X (topRight r2)
               then a\<lparr>topRight := (topRight a)\<lparr>X := X (topRight r2)\<rparr>\<rparr> else a);
          c = (if Y (bottomLeft b) > Y (bottomLeft r2)
               then b\<lparr>bottomLeft := (bottomLeft b)\<lparr>Y := Y (bottomLeft r2)\<rparr>\<rparr> else b);
          d = (if Y (topRight c) < Y (topRight r2)
               then c\<lparr>topRight := (topRight c)\<lparr>Y := Y (topRight r2)\<rparr>\<rparr> else c)
      in d\<lparr>rsize := (Y (topRight d) - Y (bottomLeft d)) * (X (topRight d) - X (bottomLeft d))\<rparr>)"

definition intersect :: "Rect \<Rightarrow> Rect \<Rightarrow> bool" where
  "intersect r1 r2 =
     (if X (topRight r2) < X (bottomLeft r1) \<or> X (topRight r1) < X (bottomLeft r2)
      then False
      else if Y (topRight r2) < Y (bottomLeft r1) \<or> Y (topRight r1) < Y (bottomLeft r2)
      then False
      else True)"

text \<open>\<open>initBoundingBox(r, r1, r2)\<close> overwrites \<open>*r\<close> with \<open>*r1\<close> and enlarges it by \<open>r2\<close>;
  the value left in \<open>*r\<close> is what the model returns.\<close>

definition initBoundingBox :: "Rect \<Rightarrow> Rect \<Rightarrow> Rect" where
  "initBoundingBox r1 r2 = enlarge r1 r2"

definition boundingBox :: "Rect \<Rightarrow> Rect \<Rightarrow> Rect" where
  "boundingBox r1 r2 = initBoundingBox r1 r2"

text \<open>The area of a rectangle as its corners give it.\<close>

definition corner_area :: "Rect \<Rightarrow> real" where
  "corner_area r = (X (topRight r) - X (bottomLeft r)) * (Y (topRight r) - Y (bottomLeft r))"

definition mkRect :: "real \<Rightarrow> real \<Rightarrow> real \<Rightarrow> real \<Rightarrow> Rect" where
  "mkRect x0 y0 x1 y1 = NewRect \<lparr>X = x0, Y = y0\<rparr> \<lparr>X = x1, Y = y1\<rparr>"

section \<open>The tree: nodes, entries and the node store\<close>

text \<open>
  A \<open>*rTreeNode\<close> is an address into the store of allocated nodes (\<open>None\<close> is
  \<open>nil\<close>); nodes are never freed, and allocation appends to the store. A \<open>Spatial\<close>
  interface value is \<open>'o option\<close> (\<open>None\<close> is the nil interface); its two methods are
  passed to the operations that call them. Rectangles behind \<open>*Rect\<close> are never written
  in place once an entry holds them (every update stores a fresh rectangle), so an
  entry holds the rectangle itself. Go's \<open>int\<close> is \<open>int\<close>: the counters stay far from
  the 64-bit bounds.
\<close>

datatype error =
    NilPointer          \<comment> \<open>nil pointer dereference\<close>
  | Dangling            \<comment> \<open>an address outside the store (cannot arise in Go)\<close>
  | IndexOutOfRange     \<comment> \<open>slice index out of range\<close>
  | NegativeCap         \<comment> \<open>\<open>make\<close> with a negative capacity\<close>
  | GetEntryPanic       \<comment> \<open>\<open>panic("getEntry returns nil pointer!")\<close>\<close>
  | RemovePanic         \<comment> \<open>\<open>panic("RTree Delete: Failed to remove entry from parent.")\<close>\<close>
  | OutOfFuel           \<comment> \<open>the bound on a pointer-chasing loop was reached\<close>

definition rbind :: "error + 'a \<Rightarrow> ('a \<Rightarrow> error + 'b) \<Rightarrow> error + 'b" where
  "rbind m f = (case m of Inl e \<Rightarrow> Inl e | Inr x \<Rightarrow> f x)"

lemma rbind_simps [simp]: "rbind (Inl e) f = Inl e" "rbind (Inr x) f = f x"
  by (simp_all add: rbind_def)

lemma rbind_cong [fundef_cong]:
  "m = m' \<Longrightarrow> (\<And>x. m' = Inr x \<Longrightarrow> f x = f' x) \<Longrightarrow> rbind m f = rbind m' f'"
  by (auto simp: rbind_def split: sum.splits)

record 'o entry =
  bb :: Rect
  child :: "nat option"
  obj :: "'o option"

record 'o rTreeNode =
  parent :: "nat option"
  isLeaf :: bool
  entries :: "'o entry list"
  level :: int

record 'o Rtree =
  MinBranch :: int
  MaxBranch :: int
  Root :: "nat option"
  Size :: int
  Height :: int
  store :: "'o rTreeNode list"

definition ptr :: "nat option \<Rightarrow> error + nat" where
  "ptr p = (case p of None \<Rightarrow> Inl NilPointer | Some a \<Rightarrow> Inr a)"

definition node_at :: "'o Rtree \<Rightarrow> nat \<Rightarrow> error + 'o rTreeNode" where
  "node_at t a = (if a < length (store t) then Inr (store t ! a) else Inl Dangling)"

definition deref :: "'o Rtree \<Rightarrow> nat option \<Rightarrow> error + (nat \<times> 'o rTreeNode)" where
  "deref t p = rbind (ptr p) (\<lambda>a. rbind (node_at t a) (\<lambda>n. Inr (a, n)))"

definition set_node :: "'o Rtree \<Rightarrow> nat \<Rightarrow> 'o rTreeNode \<Rightarrow> 'o Rtree" where
  "set_node t a n = t\<lparr>store := (store t)[a := n]\<rparr>"

definition alloc :: "'o Rtree \<Rightarrow> 'o rTreeNode \<Rightarrow> nat \<times> 'o Rtree" where
  "alloc t n = (length (store t), t\<lparr>store := store t @ [n]\<rparr>)"

definition set_parent :: "'o Rtree \<Rightarrow> nat \<Rightarrow> nat option \<Rightarrow> error + 'o Rtree" where
  "set_parent t a p = rbind (node_at t a) (\<lambda>n. Inr (set_node t a (n\<lparr>parent := p\<rparr>)))"

definition append_entry :: "'o Rtree \<Rightarrow> nat \<Rightarrow> 'o entry \<Rightarrow> error + 'o Rtree" where
  "append_entry t a e =
     rbind (node_at t a) (\<lambda>n. Inr (set_node t a (n\<lparr>entries := entries n @ [e]\<rparr>)))"

definition NewTree :: "int \<Rightarrow> int \<Rightarrow> error + 'o Rtree" where
  "NewTree minBranch maxBranch =
     (if maxBranch < 0 then Inl NegativeCap
      else Inr \<lparr>MinBranch = minBranch, MaxBranch = maxBranch, Root = Some 0, Size = 0,
                Height = 1,
                store = [\<lparr>parent = None, isLeaf = True, entries = [], level = 1\<rparr>]\<rparr>)"

subsection \<open>Bounding box of a node\<close>

definition zeroRect :: Rect where
  "zeroRect = \<lparr>bottomLeft = \<lparr>X = 0, Y = 0\<rparr>, topRight = \<lparr>X = 0, Y = 0\<rparr>, rsize = 0\<rparr>"

definition computeBoundingBox :: "'o rTreeNode \<Rightarrow> Rect" where
  "computeBoundingBox n =
     (case entries n of [] \<Rightarrow> zeroRect | e # es \<Rightarrow> foldl enlarge (bb e) (map bb es))"

subsection \<open>Insertion\<close>

text \<open>\<open>math.MaxFloat64\<close>, the largest finite double.\<close>

definition MaxFloat64 :: real where
  "MaxFloat64 = (2 ^ 53 - 1) * 2 ^ 971"

text \<open>
  The loop of \<open>chooseNode\<close> over \<open>n.entries\<close>. \<open>chosen\<close> starts as the zero entry, whose
  \<open>bb\<close> is nil: it is \<open>None\<close> until the first assignment, and reading \<open>chosen.bb.size\<close>
  before that panics.
\<close>

fun chooseLoop :: "'o entry \<Rightarrow> 'o entry list \<Rightarrow> real \<Rightarrow> 'o entry option \<Rightarrow> error + 'o entry option" where
  "chooseLoop e [] leastDiff chosen = Inr chosen"
| "chooseLoop e (e2 # es) leastDiff chosen =
     (let diff = rsize (initBoundingBox (bb e2) (bb e)) - rsize (bb e2) in
      if diff < leastDiff then chooseLoop e es diff (Some e2)
      else if diff = leastDiff then
        (case chosen of
           None \<Rightarrow> Inl NilPointer
         | Some c \<Rightarrow>
             if rsize (bb e2) < rsize (bb c) then chooseLoop e es diff (Some e2)
             else chooseLoop e es leastDiff chosen)
      else chooseLoop e es leastDiff chosen)"

fun chooseNode :: "nat \<Rightarrow> 'o Rtree \<Rightarrow> nat option \<Rightarrow> 'o entry \<Rightarrow> int \<Rightarrow> error + nat" where
  "chooseNode 0 t n e lvl = Inl OutOfFuel"
| "chooseNode (Suc fuel) t n e lvl =
     rbind (deref t n) (\<lambda>(a, nd).
       if isLeaf nd \<or> level nd = lvl then Inr a
       else rbind (chooseLoop e (entries nd) MaxFloat64 None) (\<lambda>chosen.
         chooseNode fuel t (case chosen of None \<Rightarrow> None | Some c \<Rightarrow> child c) e lvl))"

text \<open>\<open>getEntry\<close>: the index, in the parent's entries, of the first entry whose child is
  the node at address \<open>a\<close>.\<close>

fun find_child :: "nat \<Rightarrow> 'o entry list \<Rightarrow> nat \<Rightarrow> nat option" where
  "find_child a [] i = None"
| "find_child a (e # es) i = (if child e = Some a then Some i else find_child a es (Suc i))"

definition getEntry :: "'o Rtree \<Rightarrow> nat \<Rightarrow> error + (nat \<times> nat)" where
  "getEntry t a =
     rbind (node_at t a) (\<lambda>n. rbind (deref t (parent n)) (\<lambda>(p, pn).
       case find_child a (entries pn) 0 of
         None \<Rightarrow> Inl GetEntryPanic
       | Some i \<Rightarrow> Inr (p, i)))"

text \<open>\<open>n.getEntry().bb = n.computeBoundingBox()\<close>.\<close>

definition update_entry_bb :: "'o Rtree \<Rightarrow> nat \<Rightarrow> error + 'o Rtree" where
  "update_entry_bb t a =
     rbind (getEntry t a) (\<lambda>(p, i). rbind (node_at t a) (\<lambda>n. rbind (node_at t p) (\<lambda>pn.
       Inr (set_node t p
         (pn\<lparr>entries := (entries pn)[i := (entries pn ! i)\<lparr>bb := computeBoundingBox n\<rparr>]\<rparr>)))))"

text \<open>\<open>pickSeeds\<close>: the inner loop over \<open>n.entries[i+1:]\<close> and the outer loop over
  \<open>n.entries\<close>, carrying \<open>(maxWastedSpace, left, right)\<close>.\<close>

fun pickSeeds_inner :: "'o entry \<Rightarrow> nat \<Rightarrow> 'o entry list \<Rightarrow> nat \<Rightarrow> real \<times> nat \<times> nat \<Rightarrow> real \<times> nat \<times> nat" where
  "pickSeeds_inner e1 i [] j st = st"
| "pickSeeds_inner e1 i (e2 # es) j (maxWastedSpace, left, right) =
     (let diff = rsize (initBoundingBox (bb e1) (bb e2)) - rsize (bb e1) - rsize (bb e2) in
      pickSeeds_inner e1 i es (Suc j)
        (if diff > maxWastedSpace then (diff, i, i + 1 + j) else (maxWastedSpace, left, right)))"

fun pickSeeds_outer :: "'o entry list \<Rightarrow> nat \<Rightarrow> real \<times> nat \<times> nat \<Rightarrow> real \<times> nat \<times> nat" where
  "pickSeeds_outer [] i st = st"
| "pickSeeds_outer (e1 # es) i st = pickSeeds_outer es (Suc i) (pickSeeds_inner e1 i es 0 st)"

definition pickSeeds :: "'o entry list \<Rightarrow> nat \<times> nat" where
  "pickSeeds es = (case pickSeeds_outer es 0 (-1, 0, 1) of (m, left, right) \<Rightarrow> (left, right))"

text \<open>The \<open>for\<close> loop of \<open>assignGroup\<close> over \<open>remaining\<close>, carrying
  \<open>(maxDiff, bestLeftDiff, bestRightDiff, nextIdx)\<close>.\<close>

fun pickNext :: "Rect \<Rightarrow> Rect \<Rightarrow> 'o entry list \<Rightarrow> nat \<Rightarrow> real \<times> real \<times> real \<times> nat \<Rightarrow> real \<times> real \<times> real \<times> nat" where
  "pickNext leftBB rightBB [] i st = st"
| "pickNext leftBB rightBB (e # es) i (maxDiff, bestLeftDiff, bestRightDiff, nextIdx) =
     (let leftDiff = rsize (boundingBox leftBB (bb e)) - rsize leftBB;
          rightDiff = rsize (boundingBox rightBB (bb e)) - rsize rightBB;
          diff = \<bar>leftDiff - rightDiff\<bar>
      in pickNext leftBB rightBB es (Suc i)
           (if diff > maxDiff then (diff, leftDiff, rightDiff, i)
            else (maxDiff, bestLeftDiff, bestRightDiff, nextIdx)))"

definition assign :: "'o Rtree \<Rightarrow> 'o entry \<Rightarrow> nat \<Rightarrow> error + 'o Rtree" where
  "assign t e splitNode =
     rbind (case child e of None \<Rightarrow> Inr t | Some c \<Rightarrow> set_parent t c (Some splitNode))
       (\<lambda>t1. append_entry t1 splitNode e)"

text \<open>\<open>assignGroup\<close>: the variables \<open>nextIdx\<close>, \<open>bestLeftDiff\<close> and \<open>bestRightDiff\<close> are
  declared outside the \<open>while\<close> loop and are carried from one round to the next.\<close>

function assignGroup :: "'o Rtree \<Rightarrow> 'o entry list \<Rightarrow> nat \<Rightarrow> nat \<Rightarrow> int \<Rightarrow> real \<times> real \<times> nat \<Rightarrow> error + 'o Rtree" where
  "assignGroup t remaining left right minBranch (bestLeftDiff, bestRightDiff, nextIdx) =
     (if length remaining > 0 then
        rbind (node_at t left) (\<lambda>ln. rbind (node_at t right) (\<lambda>rn.
          let leftBB = computeBoundingBox ln; rightBB = computeBoundingBox rn in
          case pickNext leftBB rightBB remaining 0 (-1, bestLeftDiff, bestRightDiff, nextIdx) of
            (maxDiff, bl, br, ni) \<Rightarrow>
              if ni < length remaining then
                let nextE = remaining ! ni;
                    target =
                      (if int (length (entries ln)) + int (length remaining) \<le> minBranch then left
                       else if int (length (entries rn)) + int (length remaining) \<le> minBranch then right
                       else if bl < br then left
                       else if br < bl then right
                       else if rsize leftBB < rsize rightBB then left
                       else if rsize rightBB < rsize leftBB then right
                       else if length (entries ln) < length (entries rn) then left
                       else right)
                in rbind (assign t nextE target) (\<lambda>t'.
                     assignGroup t' (take ni remaining @ drop (Suc ni) remaining) left right minBranch
                       (bl, br, ni))
              else Inl IndexOutOfRange))
      else Inr t)"
  by pat_completeness auto
termination
  by (relation "measure (\<lambda>(t, remaining, r). length remaining)") auto

text \<open>
  \<open>split\<close> (here \<open>split_node\<close>). The two \<open>append\<close>s that build \<open>remaining\<close> write into
  the backing array of the old \<open>n.entries\<close>, left of the cells they still read, and
  \<open>n.entries\<close> is replaced by a fresh slice before anything else reads it: \<open>remaining\<close>
  is the old entries without the two seeds, in order.
\<close>

definition split_node :: "'o Rtree \<Rightarrow> nat \<Rightarrow> int \<Rightarrow> error + ('o Rtree \<times> nat \<times> nat)" where
  "split_node t n minBranch =
     rbind (node_at t n) (\<lambda>nd.
       case pickSeeds (entries nd) of (l, r) \<Rightarrow>
         if \<not> (l < length (entries nd) \<and> r < length (entries nd) \<and> l < r)
         then Inl IndexOutOfRange
         else
           let leftSeed = entries nd ! l;
               rightSeed = entries nd ! r;
               remaining = take l (entries nd) @ drop (Suc l) (take r (entries nd))
                             @ drop (Suc r) (entries nd);
               t1 = set_node t n (nd\<lparr>entries := [leftSeed]\<rparr>)
           in case alloc t1 \<lparr>parent = parent nd, isLeaf = isLeaf nd,
                              entries = [rightSeed], level = level nd\<rparr> of
                (right, t2) \<Rightarrow>
                  rbind (case child rightSeed of None \<Rightarrow> Inr t2
                         | Some c \<Rightarrow> set_parent t2 c (Some right)) (\<lambda>t3.
                  rbind (case child leftSeed of None \<Rightarrow> Inr t3
                         | Some c \<Rightarrow> set_parent t3 c (Some n)) (\<lambda>t4.
                  rbind (assignGroup t4 remaining n right minBranch (0, 0, 0)) (\<lambda>t5.
                  Inr (t5, n, right)))))"

fun adjustTree :: "nat \<Rightarrow> 'o Rtree \<Rightarrow> nat option \<Rightarrow> nat option \<Rightarrow> error + ('o Rtree \<times> nat option \<times> nat option)" where
  "adjustTree 0 t leaf splt = Inl OutOfFuel"
| "adjustTree (Suc fuel) t leaf splt =
     (if leaf = Root t then
        (case splt of
           Some sp \<Rightarrow>
             let t1 = t\<lparr>Height := Height t + 1\<rparr> in
             rbind (deref t1 leaf) (\<lambda>(l, ln). rbind (node_at t1 sp) (\<lambda>sn.
               case alloc t1 \<lparr>parent = None, isLeaf = False,
                               entries = [\<lparr>bb = computeBoundingBox ln, child = leaf, obj = None\<rparr>,
                                          \<lparr>bb = computeBoundingBox sn, child = Some sp, obj = None\<rparr>],
                               level = Height t1\<rparr> of
                 (r, t2) \<Rightarrow>
                   rbind (set_parent (t2\<lparr>Root := Some r\<rparr>) l (Some r)) (\<lambda>t3.
                   rbind (set_parent t3 sp (Some r)) (\<lambda>t4.
                   Inr (t4, leaf, splt)))))
         | None \<Rightarrow> Inr (t, None, None))
      else
        rbind (ptr leaf) (\<lambda>l. rbind (update_entry_bb t l) (\<lambda>t1. rbind (node_at t1 l) (\<lambda>ln.
          case splt of
            None \<Rightarrow> adjustTree fuel t1 (parent ln) None
          | Some sp \<Rightarrow>
              rbind (node_at t1 sp) (\<lambda>sn. rbind (ptr (parent ln)) (\<lambda>p.
              rbind (append_entry t1 p \<lparr>bb = computeBoundingBox sn, child = Some sp, obj = None\<rparr>) (\<lambda>t2.
              rbind (node_at t2 p) (\<lambda>pn.
                if int (length (entries pn)) > MaxBranch t2 then
                  rbind (split_node t2 p (MinBranch t2)) (\<lambda>(t3, l', r').
                    adjustTree fuel t3 (Some l') (Some r'))
                else adjustTree fuel t2 (Some p) None))))))))"

text \<open>\<open>insert\<close> (here \<open>insert_entry\<close>) and the public \<open>Insert\<close>; \<open>toRect\<close> is the
  \<open>ToRect\<close> method of the stored objects.\<close>

definition insert_entry :: "nat \<Rightarrow> 'o Rtree \<Rightarrow> 'o entry \<Rightarrow> int \<Rightarrow> error + 'o Rtree" where
  "insert_entry fuel t e lvl =
     rbind (chooseNode fuel t (Root t) e lvl) (\<lambda>leaf.
     rbind (append_entry t leaf e) (\<lambda>t1.
     rbind (case child e of None \<Rightarrow> Inr t1 | Some c \<Rightarrow> set_parent t1 c (Some leaf)) (\<lambda>t2.
     rbind (node_at t2 leaf) (\<lambda>ln.
     rbind (if int (length (entries ln)) > MaxBranch t2
            then rbind (split_node t2 leaf (MinBranch t2)) (\<lambda>(t3, l, r). Inr (t3, Some l, Some r))
            else Inr (t2, Some leaf, None)) (\<lambda>(t3, leaf', splt).
     rbind (adjustTree fuel t3 leaf' splt) (\<lambda>(t4, l, r). Inr t4))))))"

definition Insert :: "('o \<Rightarrow> Rect) \<Rightarrow> nat \<Rightarrow> 'o Rtree \<Rightarrow> 'o \<Rightarrow> error + 'o Rtree" where
  "Insert toRect fuel t ob =
     rbind (insert_entry fuel t \<lparr>bb = toRect ob, child = None, obj = Some ob\<rparr> 1)
       (\<lambda>t1. Inr (t1\<lparr>Size := Size t1 + 1\<rparr>))"

subsection \<open>Deletion\<close>

text \<open>\<open>findLeaf\<close> and its loop over \<open>n.entries\<close>; \<open>e.obj == obj\<close> compares a possibly nil
  interface value with the object searched for.\<close>

fun findLeaf :: "('o \<Rightarrow> Rect) \<Rightarrow> nat \<Rightarrow> 'o Rtree \<Rightarrow> nat option \<Rightarrow> 'o \<Rightarrow> error + nat option"
  and findLeaf_loop :: "('o \<Rightarrow> Rect) \<Rightarrow> nat \<Rightarrow> 'o Rtree \<Rightarrow> 'o entry list \<Rightarrow> 'o \<Rightarrow> error + nat option" where
  "findLeaf toRect 0 t n ob = Inl OutOfFuel"
| "findLeaf toRect (Suc fuel) t n ob =
     rbind (deref t n) (\<lambda>(a, nd).
       if isLeaf nd then Inr (Some a) else findLeaf_loop toRect fuel t (entries nd) ob)"
| "findLeaf_loop toRect fuel t [] ob = Inr None"
| "findLeaf_loop toRect fuel t (e # es) ob =
     (if containsRect (bb e) (toRect ob) then
        rbind (findLeaf toRect fuel t (child e) ob) (\<lambda>leaf.
          case leaf of
            None \<Rightarrow> findLeaf_loop toRect fuel t es ob
          | Some l \<Rightarrow>
              rbind (node_at t l) (\<lambda>ln.
                if list_ex (\<lambda>leafEntry. obj leafEntry = Some ob) (entries ln) then Inr (Some l)
                else findLeaf_loop toRect fuel t es ob))
      else findLeaf_loop toRect fuel t es ob)"

text \<open>The loop of \<open>Delete\<close> that sets \<open>idx\<close> to the last index holding the object.\<close>

fun find_obj :: "'o \<Rightarrow> 'o entry list \<Rightarrow> nat \<Rightarrow> int \<Rightarrow> int" where
  "find_obj ob [] i idx = idx"
| "find_obj ob (e # es) i idx = find_obj ob es (Suc i) (if obj e = Some ob then int i else idx)"

text \<open>The \<open>for n != tree.Root\<close> loop of \<open>condenseTree\<close>, and the loop that reinserts the
  collected nodes.\<close>

fun condenseLoop :: "nat \<Rightarrow> 'o Rtree \<Rightarrow> nat option \<Rightarrow> nat list \<Rightarrow> error + ('o Rtree \<times> nat list)" where
  "condenseLoop fuel t n deletedNodes =
     (if n = Root t then Inr (t, deletedNodes)
      else case fuel of
        0 \<Rightarrow> Inl OutOfFuel
      | Suc fuel' \<Rightarrow>
          rbind (deref t n) (\<lambda>(a, nd).
            if int (length (entries nd)) < MinBranch t then
              rbind (deref t (parent nd)) (\<lambda>(p, pn).
                let es = filter (\<lambda>e. child e \<noteq> Some a) (entries pn) in
                if length (entries pn) = length es then Inl RemovePanic
                else
                  let t1 = set_node t p (pn\<lparr>entries := es\<rparr>);
                      deletedNodes' = (if length (entries nd) > 0 then deletedNodes @ [a]
                                       else deletedNodes)
                  in condenseLoop fuel' t1 (parent nd) deletedNodes')
            else
              rbind (update_entry_bb t a) (\<lambda>t1. condenseLoop fuel' t1 (parent nd) deletedNodes)))"

fun reinsert :: "nat \<Rightarrow> 'o Rtree \<Rightarrow> nat list \<Rightarrow> error + 'o Rtree" where
  "reinsert fuel t [] = Inr t"
| "reinsert fuel t (a # as) =
     rbind (node_at t a) (\<lambda>nd.
     rbind (insert_entry fuel t \<lparr>bb = computeBoundingBox nd, child = Some a, obj = None\<rparr>
              (level nd + 1)) (\<lambda>t1.
     reinsert fuel t1 as))"

definition condenseTree :: "nat \<Rightarrow> 'o Rtree \<Rightarrow> nat option \<Rightarrow> error + 'o Rtree" where
  "condenseTree fuel t n =
     rbind (condenseLoop fuel t n []) (\<lambda>(t1, deletedNodes). reinsert fuel t1 deletedNodes)"

definition Delete :: "('o \<Rightarrow> Rect) \<Rightarrow> nat \<Rightarrow> 'o Rtree \<Rightarrow> 'o \<Rightarrow> error + ('o Rtree \<times> bool)" where
  "Delete toRect fuel t ob =
     rbind (findLeaf toRect fuel t (Root t) ob) (\<lambda>n.
       case n of
         None \<Rightarrow> Inr (t, False)
       | Some a \<Rightarrow>
           rbind (node_at t a) (\<lambda>nd.
             let idx = find_obj ob (entries nd) 0 (-1) in
             if idx = -1 then Inr (t, False)
             else
               let i = nat idx;
                   t1 = set_node t a
                          (nd\<lparr>entries := take i (entries nd) @ drop (Suc i) (entries nd)\<rparr>)
               in rbind (condenseTree fuel t1 (Some a)) (\<lambda>t2.
                    let t3 = t2\<lparr>Size := Size t2 - 1\<rparr> in
                    rbind (deref t3 (Root t3)) (\<lambda>(r, rn).
                      if \<not> isLeaf rn \<and> length (entries rn) = 1
                      then Inr (t3\<lparr>Root := child (hd (entries rn))\<rparr>, True)
                      else Inr (t3, True)))))"

subsection \<open>Queries\<close>

text \<open>The public queries return the tree they were called on together with their
  result, as the mutating operations do.\<close>

fun searchIntersect :: "nat \<Rightarrow> 'o Rtree \<Rightarrow> nat option \<Rightarrow> Rect \<Rightarrow> 'o option list \<Rightarrow> error + 'o option list"
  and searchIntersect_loop :: "nat \<Rightarrow> 'o Rtree \<Rightarrow> bool \<Rightarrow> 'o entry list \<Rightarrow> Rect \<Rightarrow> 'o option list \<Rightarrow> error + 'o option list" where
  "searchIntersect 0 t n q results = Inl OutOfFuel"
| "searchIntersect (Suc fuel) t n q results =
     rbind (deref t n) (\<lambda>(a, nd). searchIntersect_loop fuel t (isLeaf nd) (entries nd) q results)"
| "searchIntersect_loop fuel t leaf [] q results = Inr results"
| "searchIntersect_loop fuel t leaf (e # es) q results =
     (if intersect (bb e) q then
        (if leaf then searchIntersect_loop fuel t leaf es q (results @ [obj e])
         else rbind (searchIntersect fuel t (child e) q results) (\<lambda>results'.
                searchIntersect_loop fuel t leaf es q results'))
      else searchIntersect_loop fuel t leaf es q results)"

definition SearchIntersect :: "nat \<Rightarrow> 'o Rtree \<Rightarrow> Rect \<Rightarrow> error + ('o Rtree \<times> 'o option list)" where
  "SearchIntersect fuel t q =
     rbind (searchIntersect fuel t (Root t) q []) (\<lambda>results. Inr (t, results))"

text \<open>
  The priority queue of \<open>KNN\<close>. \<open>Len\<close>, \<open>Less\<close>, \<open>Swap\<close>, \<open>Push\<close> and \<open>Pop\<close> are the
  methods of \<open>priorityRQueue\<close>; \<open>up\<close>, \<open>down\<close>, \<open>heap_Push\<close> and \<open>heap_Pop\<close> are the
  functions of Go's standard \<open>container/heap\<close> that drive them.
\<close>

record 'o distRTreeNode =
  rEntry :: "'o entry"
  dist :: real

definition Less :: "'o distRTreeNode list \<Rightarrow> nat \<Rightarrow> nat \<Rightarrow> bool" where
  "Less q i j = (dist (q ! i) < dist (q ! j))"

definition Swap :: "'o distRTreeNode list \<Rightarrow> nat \<Rightarrow> nat \<Rightarrow> 'o distRTreeNode list" where
  "Swap q i j = q[i := q ! j, j := q ! i]"

function up :: "'o distRTreeNode list \<Rightarrow> nat \<Rightarrow> 'o distRTreeNode list" where
  "up q j =
     (let i = (j - 1) div 2 in
      if i = j \<or> \<not> Less q j i then q else up (Swap q i j) i)"
  by pat_completeness auto
termination
  by (relation "measure (\<lambda>(q, j). j)") auto

function down :: "'o distRTreeNode list \<Rightarrow> nat \<Rightarrow> nat \<Rightarrow> 'o distRTreeNode list" where
  "down q i n =
     (let j1 = 2 * i + 1 in
      if j1 \<ge> n then q
      else
        let j = (if j1 + 1 < n \<and> Less q (j1 + 1) j1 then j1 + 1 else j1) in
        if \<not> Less q j i then q else down (Swap q i j) j n)"
  by pat_completeness auto
termination
  by (relation "measure (\<lambda>(q, i, n). n - i)") auto

definition heap_Push :: "'o distRTreeNode list \<Rightarrow> 'o distRTreeNode \<Rightarrow> 'o distRTreeNode list" where
  "heap_Push q x = up (q @ [x]) (length q)"

definition heap_Pop :: "'o distRTreeNode list \<Rightarrow> error + ('o distRTreeNode \<times> 'o distRTreeNode list)" where
  "heap_Pop q =
     (if q = [] then Inl IndexOutOfRange
      else
        let n = length q - 1;
            q' = down (Swap q 0 n) 0 n
        in Inr (last q', butlast q'))"

definition push_all :: "(Rect \<Rightarrow> real) \<Rightarrow> 'o distRTreeNode list \<Rightarrow> 'o entry list \<Rightarrow> 'o distRTreeNode list" where
  "push_all sd q es = foldl (\<lambda>q e. heap_Push q \<lparr>rEntry = e, dist = sd (bb e)\<rparr>) q es"

fun KNN_loop :: "nat \<Rightarrow> (Rect \<Rightarrow> real) \<Rightarrow> 'o Rtree \<Rightarrow> int \<Rightarrow> 'o distRTreeNode list \<Rightarrow> 'o list \<Rightarrow> error + 'o list" where
  "KNN_loop fuel sd t k q nearestNeighbours =
     (if length q > 0 \<and> int (length nearestNeighbours) < k then
        (case fuel of
           0 \<Rightarrow> Inl OutOfFuel
         | Suc fuel' \<Rightarrow>
             rbind (heap_Pop q) (\<lambda>(mid, q').
               case obj (rEntry mid) of
                 Some ob \<Rightarrow> KNN_loop fuel' sd t k q' (nearestNeighbours @ [ob])
               | None \<Rightarrow>
                   rbind (deref t (child (rEntry mid))) (\<lambda>(c, cn).
                     KNN_loop fuel' sd t k (push_all sd q' (entries cn)) nearestNeighbours)))
      else Inr nearestNeighbours)"


section \<open>Scenarios\<close>

text \<open>Sequences of public operations, run from left to right with the results of the
  deletions collected; the first panic ends the run.\<close>

datatype 'o op = OpInsert 'o | OpDelete 'o

fun run :: "('o \<Rightarrow> Rect) \<Rightarrow> nat \<Rightarrow> 'o Rtree \<Rightarrow> 'o op list \<Rightarrow> error + ('o Rtree \<times> bool list)" where
  "run toRect fuel t [] = Inr (t, [])"
| "run toRect fuel t (OpInsert x # ops) =
     rbind (Insert toRect fuel t x) (\<lambda>t'. run toRect fuel t' ops)"
| "run toRect fuel t (OpDelete x # ops) =
     rbind (Delete toRect fuel t x) (\<lambda>(t', b).
     rbind (run toRect fuel t' ops) (\<lambda>(t'', bs). Inr (t'', b # bs)))"

definition run_new :: "int \<Rightarrow> int \<Rightarrow> ('o \<Rightarrow> Rect) \<Rightarrow> nat \<Rightarrow> 'o op list \<Rightarrow> error + ('o Rtree \<times> bool list)" where
  "run_new minBranch maxBranch toRect fuel ops =
     rbind (NewTree minBranch maxBranch) (\<lambda>t. run toRect fuel t ops)"

definition size_height :: "error + ('o Rtree \<times> bool list) \<Rightarrow> (int \<times> int) option" where
  "size_height r = (case r of Inl e \<Rightarrow> None | Inr (t, bs) \<Rightarrow> Some (Size t, Height t))"

definition pt :: "real \<Rightarrow> real \<Rightarrow> RTreePoint" where
  "pt x y = \<lparr>X = x, Y = y\<rparr>"

text \<open>Shorthands for writing tree states down: the leaf entry \<open>Insert\<close> builds for a
  point, an entry for a child node, a rectangle with its cached size, and a node.\<close>

definition leaf_entry :: "RTreePoint \<Rightarrow> RTreePoint entry" where
  "leaf_entry p = \<lparr>bb = ToRect p, child = None, obj = Some p\<rparr>"

definition node_entry :: "Rect \<Rightarrow> nat \<Rightarrow> RTreePoint entry" where
  "node_entry r c = \<lparr>bb = r, child = Some c, obj = None\<rparr>"

definition Rect_lit :: "real \<Rightarrow> real \<Rightarrow> real \<Rightarrow> real \<Rightarrow> real \<Rightarrow> Rect" where
  "Rect_lit x0 y0 x1 y1 a =
     \<lparr>bottomLeft = \<lparr>X = x0, Y = y0\<rparr>, topRight = \<lparr>X = x1, Y = y1\<rparr>, rsize = a\<rparr>"

definition mkNode :: "nat option \<Rightarrow> bool \<Rightarrow> 'o entry list \<Rightarrow> int \<Rightarrow> 'o rTreeNode" where
  "mkNode p l es lv = \<lparr>parent = p, isLeaf = l, entries = es, level = lv\<rparr>"

text \<open>The five points of scenario S1, and the tree \<open>NewTree(2, 4)\<close>.\<close>

definition S1_points :: "RTreePoint list" where
  "S1_points = [pt 0 0, pt 10 10, pt 5 5, pt 7 3, pt 2 8]"

definition T0 :: "RTreePoint Rtree" where
  "T0 = \<lparr>MinBranch = 2, MaxBranch = 4, Root = Some 0, Size = 0, Height = 1,
          store = [mkNode None True [] 1]\<rparr>"

text \<open>
  The states of one run: \<open>T5\<close> after the five insertions of S1, \<open>T6\<close> after then deleting
  \<open>(0,0)\<close>, \<open>T7\<close> after deleting \<open>(2,8)\<close>, \<open>T8\<close> and \<open>T9\<close> after inserting \<open>(1,1)\<close>
  and \<open>(9,9)\<close>, \<open>T10\<close> after deleting \<open>(9,9)\<close>.
\<close>

definition T5 :: "RTreePoint Rtree" where
  "T5 =
     \<lparr>MinBranch = 2, MaxBranch = 4, Root = Some 2, Size = 5, Height = 2,
      store =
       [mkNode (Some 2) True [leaf_entry (pt 0 0), leaf_entry (pt 2 8)] 1,
        mkNode (Some 2) True [leaf_entry (pt 10 10), leaf_entry (pt 5 5), leaf_entry (pt 7 3)] 1,
        mkNode None False [
           node_entry (Rect_lit (- (1 / 50000)) (- (1 / 50000)) (100001 / 50000) (400001 / 50000) (10000250001 / 625000000)) 0,
           node_entry (Rect_lit (249999 / 50000) (149999 / 50000) (500001 / 50000) (500001 / 50000) (21875300001 / 625000000)) 1] 2]\<rparr>"

definition T6 :: "RTreePoint Rtree" where
  "T6 =
     \<lparr>MinBranch = 2, MaxBranch = 4, Root = Some 2, Size = 4, Height = 2,
      store =
       [mkNode (Some 2) True [leaf_entry (pt 2 8)] 1,
        mkNode (Some 2) True [leaf_entry (pt 10 10), leaf_entry (pt 5 5), leaf_entry (pt 7 3)] 1,
        mkNode None False [
           node_entry (Rect_lit (249999 / 50000) (149999 / 50000) (500001 / 50000) (500001 / 50000) (21875300001 / 625000000)) 1,
           node_entry (Rect_lit (99999 / 50000) (399999 / 50000) (100001 / 50000) (400001 / 50000) (1 / 2500000000)) 0] 2]\<rparr>"

definition T7 :: "RTreePoint Rtree" where
  "T7 =
     \<lparr>MinBranch = 2, MaxBranch = 4, Root = Some 1, Size = 3, Height = 2,
      store =
       [mkNode (Some 2) True [] 1,
        mkNode (Some 2) True [leaf_entry (pt 10 10), leaf_entry (pt 5 5), leaf_entry (pt 7 3)] 1,
        mkNode None False [
           node_entry (Rect_lit (249999 / 50000) (149999 / 50000) (500001 / 50000) (500001 / 50000) (21875300001 / 625000000)) 1] 2]\<rparr>"

definition T8 :: "RTreePoint Rtree" where
  "T8 =
     \<lparr>MinBranch = 2, MaxBranch = 4, Root = Some 1, Size = 4, Height = 2,
      store =
       [mkNode (Some 2) True [] 1,
        mkNode (Some 2) True [leaf_entry (pt 10 10), leaf_entry (pt 5 5), leaf_entry (pt 7 3), leaf_entry (pt 1 1)] 1,
        mkNode None False [
           node_entry (Rect_lit (249999 / 50000) (149999 / 50000) (500001 / 50000) (500001 / 50000) (21875300001 / 625000000)) 1] 2]\<rparr>"

definition T9 :: "RTreePoint Rtree" where
  "T9 =
     \<lparr>MinBranch = 2, MaxBranch = 4, Root = Some 4, Size = 5, Height = 3,
      store =
       [mkNode (Some 2) True [] 1,
        mkNode (Some 4) True [leaf_entry (pt 10 10), leaf_entry (pt 9 9)] 1,
        mkNode None False [
           node_entry (Rect_lit (249999 / 50000) (149999 / 50000) (500001 / 50000) (500001 / 50000) (21875300001 / 625000000)) 1] 2,
        mkNode (Some 4) True [leaf_entry (pt 1 1), leaf_entry (pt 5 5), leaf_entry (pt 7 3)] 1,
        mkNode None False [
           node_entry (Rect_lit (449999 / 50000) (449999 / 50000) (500001 / 50000) (500001 / 50000) (625050001 / 625000000)) 1,
           node_entry (Rect_lit (49999 / 50000) (49999 / 50000) (350001 / 50000) (250001 / 50000) (15000250001 / 625000000)) 3] 3]\<rparr>"

definition T10 :: "RTreePoint Rtree" where
  "T10 =
     \<lparr>MinBranch = 2, MaxBranch = 4, Root = Some 3, Size = 4, Height = 3,
      store =
       [mkNode (Some 2) True [] 1,
        mkNode (Some 3) True [leaf_entry (pt 10 10)] 1,
        mkNode None False [
           node_entry (Rect_lit (249999 / 50000) (149999 / 50000) (500001 / 50000) (500001 / 50000) (21875300001 / 625000000)) 1] 2,
        mkNode (Some 4) True [leaf_entry (pt 1 1), leaf_entry (pt 5 5), leaf_entry (pt 7 3),
           node_entry (Rect_lit (499999 / 50000) (499999 / 50000) (500001 / 50000) (500001 / 50000) (1 / 2500000000)) 1] 1,
        mkNode None False [
           node_entry (Rect_lit (49999 / 50000) (49999 / 50000) (500001 / 50000) (500001 / 50000) (50625450001 / 625000000)) 3] 3]\<rparr>"

definition plane :: Rect where
  "plane = NewRect (pt (-100) (-100)) (pt 100 100)"

text \<open>Objects that are rectangles (\<open>ToRect\<close> returns the rectangle itself), and the
  waste of a pair of entries as \<open>pickSeeds\<close> computes it.\<close>

definition box_entry :: "Rect \<Rightarrow> Rect entry" where
  "box_entry r = \<lparr>bb = r, child = None, obj = Some r\<rparr>"

definition waste :: "'o entry \<Rightarrow> 'o entry \<Rightarrow> real" where
  "waste e1 e2 = rsize (initBoundingBox (bb e1) (bb e2)) - rsize (bb e1) - rsize (bb e2)"

definition overlapping :: "Rect list" where
  "overlapping = [mkRect 0 0 10 10, mkRect 0 0 10 10, mkRect 0 0 2 1, mkRect 0 0 2 1]"

section \<open>Rectangle algebra: results\<close>

lemma enlarge_corners:
  "X (bottomLeft (enlarge r1 r2)) = min (X (bottomLeft r1)) (X (bottomLeft r2))"
  "Y (bottomLeft (enlarge r1 r2)) = min (Y (bottomLeft r1)) (Y (bottomLeft r2))"
  "X (topRight (enlarge r1 r2)) = max (X (topRight r1)) (X (topRight r2))"
  "Y (topRight (enlarge r1 r2)) = max (Y (topRight r1)) (Y (topRight r2))"
  by (simp_all add: enlarge_def Let_def)

lemma enlarge_rsize: "rsize (enlarge r1 r2) = corner_area (enlarge r1 r2)"
  by (simp add: enlarge_def Let_def corner_area_def)

lemma NewRect_rsize: "rsize (NewRect u v) = corner_area (NewRect u v)"
  by (simp add: NewRect_def Let_def corner_area_def)

lemma boundingBox_rsize: "rsize (boundingBox r1 r2) = corner_area (boundingBox r1 r2)"
  by (simp add: boundingBox_def initBoundingBox_def enlarge_rsize)

text \<open>
  C4. \<open>containsRect\<close> compares \<open>r1.topRight.X\<close> with itself, so the right edge of the inner
  rectangle is never checked: the outer rectangle \<open>[0,1] \<times> [0,1]\<close> is reported to contain
  \<open>[0,2] \<times> [0,1]\<close>, although its right edge \<open>1\<close> is left of the inner right edge \<open>2\<close>.
\<close>

theorem containsRect_ignores_right_edge:
  "containsRect (mkRect 0 0 1 1) (mkRect 0 0 2 1) = True \<and>
   \<not> (X (bottomLeft (mkRect 0 0 1 1)) \<le> X (bottomLeft (mkRect 0 0 2 1)) \<and>
      Y (bottomLeft (mkRect 0 0 1 1)) \<le> Y (bottomLeft (mkRect 0 0 2 1)) \<and>
      X (topRight (mkRect 0 0 1 1)) \<ge> X (topRight (mkRect 0 0 2 1)) \<and>
      Y (topRight (mkRect 0 0 1 1)) \<ge> Y (topRight (mkRect 0 0 2 1)))"
  by (simp add: containsRect_def mkRect_def NewRect_def Let_def)

text \<open>
  C7. \<open>NewRect\<close>, \<open>enlarge\<close> and \<open>boundingBox\<close> cache the product of the side
  lengths (lemmas \<open>NewRect_rsize\<close>, \<open>enlarge_rsize\<close>, \<open>boundingBox_rsize\<close>), but \<open>ToRect\<close>
  stores the constant \<open>0.00002 * 0.00002\<close> for a square whose side is \<open>0.00004\<close>: at the
  point \<open>(0,0)\<close> the cached size is a quarter of the area of the corners.
\<close>

theorem ToRect_rsize_not_corner_area:
  "rsize (ToRect \<lparr>X = 0, Y = 0\<rparr>) = 4 / 10 ^ 10 \<and>
   corner_area (ToRect \<lparr>X = 0, Y = 0\<rparr>) = 16 / 10 ^ 10 \<and>
   rsize (ToRect \<lparr>X = 0, Y = 0\<rparr>) \<noteq> corner_area (ToRect \<lparr>X = 0, Y = 0\<rparr>)"
  by (simp add: ToRect_def corner_area_def)

section \<open>Evaluating the operations on concrete trees\<close>

lemma rbind_weak_cong: "m = m' \<Longrightarrow> rbind m f = rbind m' f"
  by simp

lemma fuel_2: "2 \<le> fuel \<Longrightarrow> \<exists>n. fuel = Suc (Suc n)"
  by (metis add_2_eq_Suc le_Suc_ex)

declare condenseLoop.simps [simp del]

lemmas tree_eval =
  Insert_def insert_entry_def Delete_def condenseTree_def condenseLoop.simps
  deref_def ptr_def node_at_def append_entry_def set_node_def set_parent_def alloc_def
  split_node_def pickSeeds_def assign_def computeBoundingBox_def zeroRect_def
  update_entry_bb_def getEntry_def
  initBoundingBox_def boundingBox_def enlarge_def containsRect_def intersect_def ToRect_def
  pt_def leaf_entry_def node_entry_def Rect_lit_def mkNode_def
  list_update_code nth_Cons' MaxFloat64_def Let_def

lemma NewTree_2_4: "NewTree 2 4 = Inr T0"
  by (simp add: NewTree_def T0_def mkNode_def)

lemma run_T5:
  assumes "2 \<le> fuel"
  shows "run ToRect fuel T0 (map OpInsert S1_points) = Inr (T5, [])"
proof -
  obtain n where "fuel = Suc (Suc n)"
    using assms fuel_2 by blast
  then show ?thesis
    unfolding T0_def T5_def S1_points_def
    by (simp add: tree_eval cong: let_weak_cong rbind_weak_cong)
qed

lemma Delete_T5:
  assumes "2 \<le> fuel"
  shows "Delete ToRect fuel T5 (pt 0 0) = Inr (T6, True)"
proof -
  obtain n where "fuel = Suc (Suc n)"
    using assms fuel_2 by blast
  then show ?thesis
    unfolding T5_def T6_def
    by (simp add: tree_eval cong: let_weak_cong rbind_weak_cong)
qed

lemma Delete_T6:
  assumes "2 \<le> fuel"
  shows "Delete ToRect fuel T6 (pt 2 8) = Inr (T7, True)"
proof -
  obtain n where "fuel = Suc (Suc n)"
    using assms fuel_2 by blast
  then show ?thesis
    unfolding T6_def T7_def
    by (simp add: tree_eval cong: let_weak_cong rbind_weak_cong)
qed

lemma Insert_T7:
  assumes "2 \<le> fuel"
  shows "Insert ToRect fuel T7 (pt 1 1) = Inr T8"
proof -
  obtain n where "fuel = Suc (Suc n)"
    using assms fuel_2 by blast
  then show ?thesis
    unfolding T7_def T8_def
    by (simp add: tree_eval cong: let_weak_cong rbind_weak_cong)
qed

lemma Insert_T8:
  assumes "2 \<le> fuel"
  shows "Insert ToRect fuel T8 (pt 9 9) = Inr T9"
proof -
  obtain n where "fuel = Suc (Suc n)"
    using assms fuel_2 by blast
  then show ?thesis
    unfolding T8_def T9_def
    by (simp add: tree_eval cong: let_weak_cong rbind_weak_cong)
qed

lemma Delete_T9:
  assumes "2 \<le> fuel"
  shows "Delete ToRect fuel T9 (pt 9 9) = Inr (T10, True)"
proof -
  obtain n where "fuel = Suc (Suc n)"
    using assms fuel_2 by blast
  then show ?thesis
    unfolding T9_def T10_def
    by (simp add: tree_eval cong: let_weak_cong rbind_weak_cong)
qed

lemma Search_T10:
  assumes "2 \<le> fuel"
  shows "SearchIntersect fuel T10 plane = Inr (T10, [Some (pt 1 1), Some (pt 5 5), Some (pt 7 3), None])"
proof -
  obtain n where "fuel = Suc (Suc n)"
    using assms fuel_2 by blast
  then show ?thesis
    unfolding T10_def plane_def
    by (simp add: SearchIntersect_def NewRect_def tree_eval cong: let_weak_cong rbind_weak_cong)
qed

lemma run_append:
  "run toRect fuel t (xs @ ys) =
     rbind (run toRect fuel t xs) (\<lambda>(t', bs).
     rbind (run toRect fuel t' ys) (\<lambda>(t'', bs'). Inr (t'', bs @ bs')))"
proof (induction xs arbitrary: t)
  case Nil
  show ?case by (cases "run toRect fuel t ys") auto
next
  case (Cons x xs)
  show ?case
  proof (cases x)
    case (OpInsert ob)
    then show ?thesis using Cons by (cases "Insert toRect fuel t ob") auto
  next
    case (OpDelete ob)
    show ?thesis
    proof (cases "Delete toRect fuel t ob")
      case (Inl e)
      then show ?thesis using OpDelete by simp
    next
      case (Inr r)
      obtain t' b where r: "r = (t', b)" by (cases r)
      show ?thesis
      proof (cases "run toRect fuel t' xs")
        case (Inl e)
        then show ?thesis using OpDelete Inr r Cons by simp
      next
        case inner: (Inr r')
        obtain t'' bs where r': "r' = (t'', bs)" by (cases r')
        show ?thesis
          using OpDelete Inr r Cons inner r' by (cases "run toRect fuel t'' ys") auto
      qed
    qed
  qed
qed

lemma run_new_T5: "run_new 2 4 ToRect 10 (map OpInsert S1_points) = Inr (T5, [])"
  by (simp add: run_new_def NewTree_2_4 run_T5)

lemma run_new_T6: "run_new 2 4 ToRect 10 (map OpInsert S1_points @ [OpDelete (pt 0 0)]) = Inr (T6, [True])"
  using run_new_T5
  by (simp add: run_new_def NewTree_2_4 run_append Delete_T5)

lemma run_new_T7:
  "run_new 2 4 ToRect 10 (map OpInsert S1_points @ [OpDelete (pt 0 0), OpDelete (pt 2 8)]) = Inr (T7, [True, True])"
  using run_new_T5
  by (simp add: run_new_def NewTree_2_4 run_append Delete_T5 Delete_T6)

lemma run_new_T10:
  "run_new 2 4 ToRect 10
     (map OpInsert S1_points @
      [OpDelete (pt 0 0), OpDelete (pt 2 8), OpInsert (pt 1 1), OpInsert (pt 9 9), OpDelete (pt 9 9)])
   = Inr (T10, [True, True, True])"
  using run_new_T5
  by (simp add: run_new_def NewTree_2_4 run_append Delete_T5 Delete_T6 Insert_T7 Insert_T8
      Delete_T9)

lemma run_overlapping:
  assumes "2 \<le> fuel"
  shows "map_sum id (\<lambda>(t, bs). map (\<lambda>n. map obj (entries n)) (store t))
           (run_new 2 3 (\<lambda>r. r) fuel (map OpInsert overlapping))
         = Inr [[Some (mkRect 0 0 10 10), Some (mkRect 0 0 2 1)],
                [Some (mkRect 0 0 10 10), Some (mkRect 0 0 2 1)],
                [None, None]]"
proof -
  obtain n where "fuel = Suc (Suc n)"
    using assms fuel_2 by blast
  then show ?thesis
    unfolding overlapping_def run_new_def NewTree_def mkRect_def NewRect_def
    by (simp add: tree_eval cong: let_weak_cong rbind_weak_cong)
qed


declare up.simps [simp del] down.simps [simp del] KNN_loop.simps [simp del]




section \<open>The tree: results\<close>

text \<open>
  C8 (as stated). Scenario S1 claims \<open>Size == 5\<close> and \<open>Height == 1\<close> after inserting
  five points into \<open>NewTree(2, 4)\<close>. The fifth insertion overflows the root leaf
  (\<open>5 > MaxBranch\<close>), which is split under a new root: the height is not 1.
\<close>

theorem S1_height_is_not_1:
  "size_height (run_new 2 4 ToRect 10 (map OpInsert S1_points)) \<noteq> Some (5, 1)"
  by (simp add: run_new_T5 size_height_def T5_def)

text \<open>
  C8 (amended). Starting from \<open>NewTree(2, 4)\<close> and inserting the five points \<open>(0,0)\<close>,
  \<open>(10,10)\<close>, \<open>(5,5)\<close>, \<open>(7,3)\<close>, \<open>(2,8)\<close> in that order, the resulting tree has
  \<open>Size == 5\<close> and \<open>Height == 2\<close>.
\<close>

theorem S1_size_5_height_2:
  "size_height (run_new 2 4 ToRect 10 (map OpInsert S1_points)) = Some (5, 2)"
  by (simp add: run_new_T5 size_height_def T5_def)

text \<open>
  C3. After the five insertions of S1 into \<open>NewTree(2, 4)\<close>, deleting \<open>(0,0)\<close> leaves
  its leaf (node 0) with one entry. \<open>condenseTree\<close> takes the leaf out of the root and
  then inserts the leaf itself back, one level up, instead of its entries: the root
  (node 2) again has node 0 as a child, and node 0 holds \<open>1 < MinBranch = 2\<close> entries.
\<close>

theorem underfull_leaf_stays_in_tree:
  "run_new 2 4 ToRect 10 (map OpInsert S1_points @ [OpDelete (pt 0 0)]) = Inr (T6, [True]) \<and>
   Root T6 = Some 2 \<and>
   map child (entries (store T6 ! 2)) = [Some 1, Some 0] \<and>
   length (entries (store T6 ! 0)) = 1 \<and>
   MinBranch T6 = 2"
  by (simp add: run_new_T6) (simp add: T6_def mkNode_def node_entry_def)

text \<open>
  C5. In the tree \<open>T6\<close> (S1, then \<open>(0,0)\<close> deleted), deleting \<open>(2,8)\<close> empties node 0,
  which the condense pass removes from the root (node 2): the root is internal with the
  single child node 1, and \<open>Delete\<close> makes node 1 the root. It does not touch \<open>Height\<close>,
  which stays 2 over a tree that is one leaf, nor the parent link of node 1, which still
  points to the old root.
\<close>

theorem promotion_keeps_height_and_parent:
  "run_new 2 4 ToRect 10 (map OpInsert S1_points @ [OpDelete (pt 0 0)]) = Inr (T6, [True]) \<and>
   Delete ToRect 10 T6 (pt 2 8) = Inr (T7, True) \<and>
   Root T6 = Some 2 \<and> Height T6 = 2 \<and>
   isLeaf (store T7 ! 2) = False \<and>
   map child (entries (store T7 ! 2)) = [Some 1] \<and>
   Root T7 = Some 1 \<and> Height T7 = 2 \<and>
   isLeaf (store T7 ! 1) = True \<and>
   parent (store T7 ! 1) = Some 2"
  by (simp add: run_new_T6 Delete_T6)
     (simp add: T6_def T7_def mkNode_def node_entry_def)

text \<open>
  C1. After the run S1, delete \<open>(0,0)\<close>, delete \<open>(2,8)\<close>, insert \<open>(1,1)\<close>, insert
  \<open>(9,9)\<close>, delete \<open>(9,9)\<close>, the objects stored are \<open>(10,10)\<close>, \<open>(5,5)\<close>, \<open>(7,3)\<close> and
  \<open>(1,1)\<close>, and all of them intersect the query rectangle \<open>[-100,100] \<times> [-100,100]\<close>.
  \<open>SearchIntersect\<close> returns \<open>(1,1)\<close>, \<open>(5,5)\<close>, \<open>(7,3)\<close> and a nil object; \<open>(10,10)\<close> is
  missing. The root promotion of the second deletion left \<open>Height = 2\<close> over a single
  leaf, so the next root split made a root of level 3 over leaves of level 1; the node
  orphaned by the last deletion was then inserted at level 2, which \<open>chooseNode\<close> never
  meets, and landed as an entry of a leaf.
\<close>

theorem search_misses_stored_object:
  "run_new 2 4 ToRect 10
     (map OpInsert S1_points @
      [OpDelete (pt 0 0), OpDelete (pt 2 8), OpInsert (pt 1 1), OpInsert (pt 9 9), OpDelete (pt 9 9)])
   = Inr (T10, [True, True, True]) \<and>
   SearchIntersect 10 T10 plane
   = Inr (T10, [Some (pt 1 1), Some (pt 5 5), Some (pt 7 3), None]) \<and>
   intersect (ToRect (pt 10 10)) plane"
  by (simp add: run_new_T10 Search_T10)
     (simp add: intersect_def ToRect_def plane_def NewRect_def pt_def)

text \<open>
  C6. \<open>pickSeeds\<close> starts from \<open>maxWastedSpace = -1.0\<close> and takes a pair only when its
  waste is larger. Rectangles that overlap have negative waste: for the four entries
  \<open>[0,10]\<times>[0,10]\<close>, \<open>[0,10]\<times>[0,10]\<close>, \<open>[0,2]\<times>[0,1]\<close>, \<open>[0,2]\<times>[0,1]\<close> (a full node
  of a tree with \<open>MaxBranch = 3\<close>, plus one) every pair has waste at most \<open>-2\<close>, no
  pair is taken, and the result is the initial \<open>(0, 1)\<close>, whose waste \<open>-100\<close> is the
  least of all; the pair \<open>(0, 2)\<close> has waste \<open>-2\<close>. Inserting the four rectangles into
  \<open>NewTree(2, 3)\<close> splits the root on these seeds.
\<close>

theorem pickSeeds_not_maximal:
  "length (map box_entry overlapping) = 4 \<and>
   pickSeeds (map box_entry overlapping) = (0, 1) \<and>
   waste (map box_entry overlapping ! 0) (map box_entry overlapping ! 1) = -100 \<and>
   waste (map box_entry overlapping ! 0) (map box_entry overlapping ! 2) = -2 \<and>
   map_sum id (\<lambda>(t, bs). map (\<lambda>n. map obj (entries n)) (store t))
     (run_new 2 3 (\<lambda>r. r) 10 (map OpInsert overlapping))
   = Inr [[Some (mkRect 0 0 10 10), Some (mkRect 0 0 2 1)],
          [Some (mkRect 0 0 10 10), Some (mkRect 0 0 2 1)],
          [None, None]]"
  by (simp add: run_overlapping)
     (simp add: overlapping_def box_entry_def waste_def pickSeeds_def mkRect_def NewRect_def
        initBoundingBox_def enlarge_def)



end
